theory Spec2Isabelle
  imports Complex_Main "HOL-Library.Sublist"
begin

section \<open>JavaScript numbers\<close>

text \<open>
  The metrics engine (\<^verbatim>\<open>computeGrowthMetrics\<close> and its helpers) works on JavaScript
  numbers. A number is modelled as a real, one of the two infinities, or NaN. The special
  values follow IEEE 754 as JavaScript applies it (NaN is contagious, \<open>Infinity - Infinity\<close>,
  \<open>Infinity / Infinity\<close> and \<open>0 * Infinity\<close> are NaN, every comparison with NaN is false).
  Arithmetic on finite values is exact: the rounding error and the overflow of binary64
  are not modelled, and the two zeros are one value.
\<close>

datatype jsnum = Fin real | PInf | NInf | NaN

instantiation jsnum :: "{plus, uminus, minus, times, inverse, ord}"
begin

fun plus_jsnum :: "jsnum \<Rightarrow> jsnum \<Rightarrow> jsnum" where
  "plus_jsnum NaN y = NaN"
| "plus_jsnum x NaN = NaN"
| "plus_jsnum PInf NInf = NaN"
| "plus_jsnum NInf PInf = NaN"
| "plus_jsnum PInf y = PInf"
| "plus_jsnum x PInf = PInf"
| "plus_jsnum NInf y = NInf"
| "plus_jsnum x NInf = NInf"
| "plus_jsnum (Fin a) (Fin b) = Fin (a + b)"

fun uminus_jsnum :: "jsnum \<Rightarrow> jsnum" where
  "uminus_jsnum (Fin a) = Fin (- a)"
| "uminus_jsnum PInf = NInf"
| "uminus_jsnum NInf = PInf"
| "uminus_jsnum NaN = NaN"

definition minus_jsnum :: "jsnum \<Rightarrow> jsnum \<Rightarrow> jsnum" where
  "minus_jsnum x y = x + (- y)"

fun times_jsnum :: "jsnum \<Rightarrow> jsnum \<Rightarrow> jsnum" where
  "times_jsnum NaN y = NaN"
| "times_jsnum x NaN = NaN"
| "times_jsnum (Fin a) (Fin b) = Fin (a * b)"
| "times_jsnum (Fin a) PInf = (if a = 0 then NaN else if 0 < a then PInf else NInf)"
| "times_jsnum (Fin a) NInf = (if a = 0 then NaN else if 0 < a then NInf else PInf)"
| "times_jsnum PInf (Fin b) = (if b = 0 then NaN else if 0 < b then PInf else NInf)"
| "times_jsnum NInf (Fin b) = (if b = 0 then NaN else if 0 < b then NInf else PInf)"
| "times_jsnum PInf PInf = PInf"
| "times_jsnum PInf NInf = NInf"
| "times_jsnum NInf PInf = NInf"
| "times_jsnum NInf NInf = PInf"

fun divide_jsnum :: "jsnum \<Rightarrow> jsnum \<Rightarrow> jsnum" where
  "divide_jsnum NaN y = NaN"
| "divide_jsnum x NaN = NaN"
| "divide_jsnum (Fin a) (Fin b) =
     (if b = 0 then (if a = 0 then NaN else if 0 < a then PInf else NInf) else Fin (a / b))"
| "divide_jsnum (Fin a) y = Fin 0"
| "divide_jsnum PInf (Fin b) = (if 0 \<le> b then PInf else NInf)"
| "divide_jsnum NInf (Fin b) = (if 0 \<le> b then NInf else PInf)"
| "divide_jsnum x y = NaN"

definition inverse_jsnum :: "jsnum \<Rightarrow> jsnum" where
  "inverse_jsnum x = divide (Fin 1) x"

fun less_jsnum :: "jsnum \<Rightarrow> jsnum \<Rightarrow> bool" where
  "less_jsnum NaN y = False"
| "less_jsnum x NaN = False"
| "less_jsnum (Fin a) (Fin b) = (a < b)"
| "less_jsnum x NInf = False"
| "less_jsnum PInf y = False"
| "less_jsnum NInf y = True"
| "less_jsnum (Fin a) PInf = True"

definition less_eq_jsnum :: "jsnum \<Rightarrow> jsnum \<Rightarrow> bool" where
  "less_eq_jsnum x y = (x < y \<or> (x = y \<and> x \<noteq> NaN))"

instance ..

end

text \<open>\<^verbatim>\<open>isNaN\<close>, and the strict comparison \<^verbatim>\<open>!==\<close> of two numbers (NaN differs from itself).\<close>

definition isNaN :: "jsnum \<Rightarrow> bool" where
  "isNaN v = (v = NaN)"

definition strict_neq :: "jsnum \<Rightarrow> jsnum \<Rightarrow> bool" where
  "strict_neq x y = (x = NaN \<or> y = NaN \<or> x \<noteq> y)"

text \<open>The functions of \<^verbatim>\<open>Math\<close> that the engine calls.\<close>

fun Math_abs :: "jsnum \<Rightarrow> jsnum" where
  "Math_abs (Fin a) = Fin \<bar>a\<bar>"
| "Math_abs PInf = PInf"
| "Math_abs NInf = PInf"
| "Math_abs NaN = NaN"

fun Math_sqrt :: "jsnum \<Rightarrow> jsnum" where
  "Math_sqrt (Fin a) = (if a < 0 then NaN else Fin (sqrt a))"
| "Math_sqrt PInf = PInf"
| "Math_sqrt NInf = NaN"
| "Math_sqrt NaN = NaN"

text \<open>\<^verbatim>\<open>Math.round\<close> goes to the nearest integer, a tie towards plus infinity.\<close>

fun Math_round :: "jsnum \<Rightarrow> jsnum" where
  "Math_round (Fin a) = Fin (of_int \<lfloor>a + 1 / 2\<rfloor>)"
| "Math_round x = x"

text \<open>\<^verbatim>\<open>Math.max\<close> and \<^verbatim>\<open>Math.min\<close> of two arguments, and of a spread array
  (\<^verbatim>\<open>Math.max(...arr)\<close>): NaN as soon as one argument is NaN, and the empty maximum is
  \<open>-Infinity\<close>, the empty minimum \<open>Infinity\<close>.\<close>

definition Math_max2 :: "jsnum \<Rightarrow> jsnum \<Rightarrow> jsnum" where
  "Math_max2 x y = (if x = NaN \<or> y = NaN then NaN else if x < y then y else x)"

definition Math_min2 :: "jsnum \<Rightarrow> jsnum \<Rightarrow> jsnum" where
  "Math_min2 x y = (if x = NaN \<or> y = NaN then NaN else if y < x then y else x)"

definition Math_max :: "jsnum list \<Rightarrow> jsnum" where
  "Math_max arr = foldl Math_max2 NInf arr"

definition Math_min :: "jsnum list \<Rightarrow> jsnum" where
  "Math_min arr = foldl Math_min2 PInf arr"

section \<open>Cell values and their coercion to a number\<close>

text \<open>
  A row is a \<^verbatim>\<open>Record<string, unknown>\<close>. Its cells are the scalars a parsed CSV or
  spreadsheet and the JSON store deliver: a number, a string, a boolean or \<^verbatim>\<open>null\<close>;
  reading a key the row does not have gives \<^verbatim>\<open>undefined\<close>. A row, like the two maps
  of the result, is a map from names to values; the prototype chain of a JavaScript
  object (a column called \<^verbatim>\<open>__proto__\<close>) is not modelled.
\<close>

datatype jsval = JNum jsnum | JStr string | JBool bool | JNull | JUndefined

type_synonym row = "string \<rightharpoonup> jsval"

definition get :: "row \<Rightarrow> string \<Rightarrow> jsval" where
  "get r col = (case r col of None \<Rightarrow> JUndefined | Some v \<Rightarrow> v)"

text \<open>
  \<^verbatim>\<open>Number(v)\<close> on a string follows the grammar of ECMAScript's StringToNumber: white
  space around the literal is skipped and an empty literal is 0; the literal is an
  unsigned hexadecimal, octal or binary integer (\<^verbatim>\<open>0x\<close>, \<^verbatim>\<open>0o\<close>, \<^verbatim>\<open>0b\<close>), or a
  decimal literal with an optional sign, fraction and exponent, or a signed
  \<^verbatim>\<open>Infinity\<close>; anything else is NaN. Strings are byte strings here, and only the ASCII
  white space is skipped (not the Unicode spaces and line terminators, which the code skips
  too). A decimal literal has its exact value: it is not rounded to the nearest binary64
  number, so a literal beyond the binary64 range is a finite real here where the code gets
  \<open>Infinity\<close> or 0.
\<close>

definition isWhiteSpace :: "char \<Rightarrow> bool" where
  "isWhiteSpace c =
     (c = CHR '' '' \<or> c = CHR 0x09 \<or> c = CHR 0x0A \<or> c = CHR 0x0B \<or> c = CHR 0x0C \<or> c = CHR 0x0D)"

definition trim :: "string \<Rightarrow> string" where
  "trim s = rev (dropWhile isWhiteSpace (rev (dropWhile isWhiteSpace s)))"

text \<open>The value of a digit, from its character code: \<open>0\<close> to \<open>9\<close>, then the letters of
  a hexadecimal literal in either case.\<close>

definition digitVal :: "char \<Rightarrow> nat option" where
  "digitVal c =
     (let k = (of_char c :: nat)
      in if 48 \<le> k \<and> k \<le> 57 then Some (k - 48)
         else if 97 \<le> k \<and> k \<le> 102 then Some (k - 87)
         else if 65 \<le> k \<and> k \<le> 70 then Some (k - 55)
         else None)"

definition isDigit :: "char \<Rightarrow> bool" where
  "isDigit c = (case digitVal c of None \<Rightarrow> False | Some d \<Rightarrow> d < 10)"

fun digitsVal :: "nat \<Rightarrow> nat \<Rightarrow> string \<Rightarrow> nat option" where
  "digitsVal b acc [] = Some acc"
| "digitsVal b acc (c # cs) =
     (case digitVal c of
        None \<Rightarrow> None
      | Some d \<Rightarrow> if d < b then digitsVal b (acc * b + d) cs else None)"

definition digitsOpt :: "nat \<Rightarrow> string \<Rightarrow> nat option" where
  "digitsOpt b ds = (if ds = [] then None else digitsVal b 0 ds)"

definition nonDecimalLiteral :: "string \<Rightarrow> jsnum option" where
  "nonDecimalLiteral s =
     (case s of
        z # p # ds \<Rightarrow>
          (if z \<noteq> CHR ''0'' then None
           else if p = CHR ''x'' \<or> p = CHR ''X'' then map_option (\<lambda>n. Fin (real n)) (digitsOpt 16 ds)
           else if p = CHR ''o'' \<or> p = CHR ''O'' then map_option (\<lambda>n. Fin (real n)) (digitsOpt 8 ds)
           else if p = CHR ''b'' \<or> p = CHR ''B'' then map_option (\<lambda>n. Fin (real n)) (digitsOpt 2 ds)
           else None)
      | _ \<Rightarrow> None)"

definition signedInteger :: "string \<Rightarrow> int option" where
  "signedInteger s =
     (case s of
        [] \<Rightarrow> None
      | c # ds \<Rightarrow>
          (if c = CHR ''+'' then map_option int (digitsOpt 10 ds)
           else if c = CHR ''-'' then map_option (\<lambda>n. - int n) (digitsOpt 10 ds)
           else map_option int (digitsOpt 10 s)))"

definition exponentPart :: "string \<Rightarrow> int option" where
  "exponentPart s =
     (case s of
        [] \<Rightarrow> Some 0
      | c # ds \<Rightarrow> (if c = CHR ''e'' \<or> c = CHR ''E'' then signedInteger ds else None))"

definition scale10 :: "nat \<Rightarrow> int \<Rightarrow> real" where
  "scale10 m k = (if 0 \<le> k then real m * 10 ^ nat k else real m / 10 ^ nat (- k))"

definition unsignedDecimalLiteral :: "string \<Rightarrow> jsnum" where
  "unsignedDecimalLiteral u =
     (if u = ''Infinity'' then PInf
      else
        let ip = takeWhile isDigit u;
            r1 = dropWhile isDigit u;
            hasDot = (r1 \<noteq> [] \<and> hd r1 = CHR ''.'');
            fp = (if hasDot then takeWhile isDigit (tl r1) else []);
            r2 = (if hasDot then dropWhile isDigit (tl r1) else r1)
        in if ip = [] \<and> fp = [] then NaN
           else (case exponentPart r2 of
                   None \<Rightarrow> NaN
                 | Some e \<Rightarrow>
                     (case digitsVal 10 0 (ip @ fp) of
                        None \<Rightarrow> NaN
                      | Some m \<Rightarrow> Fin (scale10 m (e - int (length fp))))))"

definition decimalLiteral :: "string \<Rightarrow> jsnum" where
  "decimalLiteral s =
     (case s of
        [] \<Rightarrow> NaN
      | c # u \<Rightarrow>
          (if c = CHR ''+'' then unsignedDecimalLiteral u
           else if c = CHR ''-'' then - unsignedDecimalLiteral u
           else unsignedDecimalLiteral s))"

definition StringToNumber :: "string \<Rightarrow> jsnum" where
  "StringToNumber s =
     (let t = trim s
      in if t = [] then Fin 0
         else (case nonDecimalLiteral t of Some n \<Rightarrow> n | None \<Rightarrow> decimalLiteral t))"

fun Number :: "jsval \<Rightarrow> jsnum" where
  "Number (JNum n) = n"
| "Number (JStr s) = StringToNumber s"
| "Number (JBool b) = (if b then Fin 1 else Fin 0)"
| "Number JNull = Fin 0"
| "Number JUndefined = NaN"

section \<open>The column classifier\<close>

text \<open>\<^verbatim>\<open>c.includes(kw)\<close>: the keyword occurs in the column name as a contiguous substring.\<close>

fun includes_str :: "string \<Rightarrow> string \<Rightarrow> bool" where
  "includes_str [] kw = (kw = [])"
| "includes_str (c # cs) kw = (prefix kw (c # cs) \<or> includes_str cs kw)"

definition some_includes :: "string list \<Rightarrow> string \<Rightarrow> bool" where
  "some_includes kws c = list_ex (\<lambda>kw. includes_str c kw) kws"

definition revenue_keywords :: "string list" where
  "revenue_keywords = [''revenue'', ''mrr'', ''arr'', ''income'', ''sales'', ''gmv'']"

definition cost_keywords :: "string list" where
  "cost_keywords = [''cost'', ''expense'', ''spend'', ''burn'', ''cac'']"

definition user_keywords :: "string list" where
  "user_keywords = [''user'', ''customer'', ''subscriber'', ''client'', ''account'']"

definition retention_keywords :: "string list" where
  "retention_keywords = [''retention'', ''churn'', ''nrr'', ''ndr'']"

record classified =
  revenue :: "string list"
  cost :: "string list"
  user :: "string list"
  retention :: "string list"

definition classifyColumns :: "string list \<Rightarrow> classified" where
  "classifyColumns numericCols =
     \<lparr> revenue = filter (some_includes revenue_keywords) numericCols,
       cost = filter (some_includes cost_keywords) numericCols,
       user = filter (some_includes user_keywords) numericCols,
       retention = filter (some_includes retention_keywords) numericCols \<rparr>"

section \<open>Numeric helpers of the engine\<close>

definition round2 :: "jsnum \<Rightarrow> jsnum" where
  "round2 n = Math_round (n * Fin 100) / Fin 100"

text \<open>\<^verbatim>\<open>clamp(val, lo = 0, hi = 100)\<close>; the engine never passes the bounds.\<close>

definition clamp :: "jsnum \<Rightarrow> jsnum" where
  "clamp val = (let lo = Fin 0; hi = Fin 100 in Math_max2 lo (Math_min2 hi val))"

text \<open>\<^verbatim>\<open>arr.reduce((a, b) => a + b, 0)\<close>\<close>

definition sum_arr :: "jsnum list \<Rightarrow> jsnum" where
  "sum_arr arr = foldl (\<lambda>a b. a + b) (Fin 0) arr"

definition mean :: "jsnum list \<Rightarrow> jsnum" where
  "mean arr = (if arr \<noteq> [] then sum_arr arr / Fin (real (length arr)) else Fin 0)"

text \<open>In \<open>std\<close> the square \<^verbatim>\<open>(v - m) ** 2\<close> is the product of the difference with itself.\<close>

definition std :: "jsnum list \<Rightarrow> jsnum" where
  "std arr =
     (if length arr < 2 then Fin 0
      else let m = mean arr
           in Math_sqrt (foldl (\<lambda>sum v. sum + (v - m) * (v - m)) (Fin 0) arr
                / Fin (real (length arr))))"

section \<open>Per-column statistics\<close>

record ColumnMetrics =
  mean_f :: jsnum
  latest :: jsnum
  min_f :: jsnum
  max_f :: jsnum
  total_f :: jsnum
  avg_growth_rate :: "jsnum option"
  growth_rates :: "jsnum list option"

text \<open>
  The values of a column that survive: every row's cell is coerced with \<^verbatim>\<open>Number\<close>, a NaN
  becomes \<^verbatim>\<open>null\<close>, and the \<^verbatim>\<open>null\<close>s are filtered out.
\<close>

definition colVals :: "row list \<Rightarrow> string \<Rightarrow> jsnum list" where
  "colVals data col =
     map the (filter (\<lambda>v. v \<noteq> None)
       (map (\<lambda>r. let v = Number (get r col) in if isNaN v then None else Some v) data))"

text \<open>The loop over \<^verbatim>\<open>i = 1 .. vals.length - 1\<close> that collects the percent changes.\<close>

fun pctChanges :: "jsnum list \<Rightarrow> jsnum list" where
  "pctChanges (p # v # rest) =
     (if strict_neq p (Fin 0) then [((v - p) / Math_abs p) * Fin 100] else [])
       @ pctChanges (v # rest)"
| "pctChanges vals = []"

definition baseDetail :: "jsnum list \<Rightarrow> ColumnMetrics" where
  "baseDetail vals =
     \<lparr> mean_f = round2 (mean vals),
       latest = round2 (last vals),
       min_f = round2 (Math_min vals),
       max_f = round2 (Math_max vals),
       total_f = round2 (sum_arr vals),
       avg_growth_rate = None,
       growth_rates = None \<rparr>"

definition columnDetail :: "jsnum list \<Rightarrow> ColumnMetrics" where
  "columnDetail vals =
     (let detail = baseDetail vals
      in if 1 < length vals
         then let pc = pctChanges vals
              in detail \<lparr> avg_growth_rate := Some (if pc \<noteq> [] then round2 (mean pc) else Fin 0),
                          growth_rates := Some (map round2 pc) \<rparr>
         else detail)"

type_synonym detail_map = "string \<rightharpoonup> ColumnMetrics"
type_synonym trend_map = "string \<rightharpoonup> jsnum list"

text \<open>One pass of the loop \<^verbatim>\<open>for (const col of numericCols)\<close> over the two maps.\<close>

definition columnStep :: "row list \<Rightarrow> string \<Rightarrow> detail_map \<times> trend_map \<Rightarrow> detail_map \<times> trend_map" where
  "columnStep data col st =
     (let vals = colVals data col
      in if vals = [] then st
         else (if 1 < length vals
               then ((fst st)(col \<mapsto> columnDetail vals), (snd st)(col \<mapsto> map round2 vals))
               else ((fst st)(col \<mapsto> columnDetail vals), snd st)))"

definition perColumnStats :: "row list \<Rightarrow> string list \<Rightarrow> detail_map \<times> trend_map" where
  "perColumnStats data numericCols = fold (columnStep data) numericCols (Map.empty, Map.empty)"

section \<open>The composite scores\<close>

record MetricsResult =
  growth_score :: jsnum
  efficiency_score :: jsnum
  pmf_signal :: jsnum
  scalability_index :: jsnum
  capital_efficiency :: jsnum
  metrics_detail :: detail_map
  trends :: trend_map

text \<open>\<^verbatim>\<open>metricsDetail[c]?.avg_growth_rate\<close>, and the reads with a default
  \<^verbatim>\<open>metricsDetail[c]?.f ?? 0\<close>.\<close>

definition avgOf :: "detail_map \<Rightarrow> string \<Rightarrow> jsnum option" where
  "avgOf md c = (case md c of None \<Rightarrow> None | Some d \<Rightarrow> avg_growth_rate d)"

definition avgOr0 :: "detail_map \<Rightarrow> string \<Rightarrow> jsnum" where
  "avgOr0 md c = (case avgOf md c of None \<Rightarrow> Fin 0 | Some a \<Rightarrow> a)"

definition fieldOr0 :: "(ColumnMetrics \<Rightarrow> jsnum) \<Rightarrow> detail_map \<Rightarrow> string \<Rightarrow> jsnum" where
  "fieldOr0 f md c = (case md c of None \<Rightarrow> Fin 0 | Some d \<Rightarrow> f d)"

text \<open>Growth score.\<close>

definition growthCols :: "string list \<Rightarrow> classified \<Rightarrow> string list" where
  "growthCols numericCols cl =
     (if revenue cl \<noteq> [] then revenue cl
      else if user cl \<noteq> [] then user cl
      else take 2 numericCols)"

definition growthRates :: "detail_map \<Rightarrow> string list \<Rightarrow> jsnum list" where
  "growthRates md cols = map (\<lambda>c. the (avgOf md c)) (filter (\<lambda>c. avgOf md c \<noteq> None) cols)"

definition growthScore :: "jsnum list \<Rightarrow> jsnum" where
  "growthScore rates =
     (let avgGrowth = (if rates \<noteq> [] then mean rates else Fin 0)
      in clamp (Fin 50 + avgGrowth * Fin 2))"

text \<open>Efficiency score.\<close>

definition efficiencyScore :: "detail_map \<Rightarrow> classified \<Rightarrow> jsnum" where
  "efficiencyScore md cl =
     (if revenue cl \<noteq> [] \<and> cost cl \<noteq> []
      then let revTotal = foldl (\<lambda>s c. s + fieldOr0 total_f md c) (Fin 0) (revenue cl);
               costTotal = foldl (\<lambda>s c. s + fieldOr0 total_f md c) (Fin 0) (cost cl)
           in if Fin 0 < costTotal then clamp ((revTotal / costTotal) * Fin 25) else Fin 65
      else Fin 65)"

text \<open>PMF signal.\<close>

definition pmfSignal :: "string list \<Rightarrow> detail_map \<Rightarrow> classified \<Rightarrow> jsnum list \<Rightarrow> jsnum \<Rightarrow> jsnum" where
  "pmfSignal numericCols md cl rates gScore =
     (let churnCols = filter (\<lambda>c. includes_str c ''churn'') numericCols;
          pureRetention = filter (\<lambda>c. \<not> includes_str c ''churn'') (retention cl)
      in if pureRetention \<noteq> []
         then let retVals = map (\<lambda>c. latest (the (md c))) (filter (\<lambda>c. md c \<noteq> None) pureRetention)
              in if retVals \<noteq> [] then clamp (mean retVals) else Fin 55
         else if churnCols \<noteq> []
         then let churnVals = map (\<lambda>c. latest (the (md c))) (filter (\<lambda>c. md c \<noteq> None) churnCols)
              in if churnVals \<noteq> [] then clamp (Fin 100 - mean churnVals * Fin 10) else Fin 55
         else if rates \<noteq> []
         then let consistency =
                    (if 1 < length rates then Fin 100 - Math_min2 (Fin 100) (std rates * Fin 2)
                     else Fin 60)
              in clamp ((consistency + gScore) / Fin 2)
         else Fin 55)"

text \<open>Scalability index.\<close>

definition scalabilityIndex :: "detail_map \<Rightarrow> classified \<Rightarrow> jsnum" where
  "scalabilityIndex md cl =
     (if revenue cl \<noteq> [] \<and> cost cl \<noteq> []
      then let revGrowth = Math_max (map (avgOr0 md) (revenue cl));
               costGrowth = Math_max (map (avgOr0 md) (cost cl))
           in if strict_neq costGrowth (Fin 0) then clamp (Fin 50 + (revGrowth - costGrowth))
              else if Fin 0 < revGrowth then clamp (Fin 50 + revGrowth)
              else Fin 60
      else Fin 60)"

text \<open>Capital efficiency.\<close>

definition capitalEfficiency :: "detail_map \<Rightarrow> classified \<Rightarrow> jsnum" where
  "capitalEfficiency md cl =
     (if revenue cl \<noteq> [] \<and> cost cl \<noteq> []
      then let revLatest = foldl (\<lambda>s c. s + fieldOr0 latest md c) (Fin 0) (revenue cl);
               costLatest = foldl (\<lambda>s c. s + fieldOr0 latest md c) (Fin 0) (cost cl)
           in if Fin 0 < costLatest then clamp ((revLatest / costLatest) * Fin 30) else Fin 55
      else Fin 55)"

section \<open>The engine\<close>

definition computeGrowthMetrics :: "row list \<Rightarrow> string list \<Rightarrow> MetricsResult" where
  "computeGrowthMetrics data numericCols =
     (if data = [] \<or> numericCols = []
      then \<lparr> growth_score = Fin 0, efficiency_score = Fin 0, pmf_signal = Fin 0,
             scalability_index = Fin 0, capital_efficiency = Fin 0,
             metrics_detail = Map.empty, trends = Map.empty \<rparr>
      else let st = perColumnStats data numericCols;
               metricsDetail = fst st;
               cl = classifyColumns numericCols;
               rates = growthRates metricsDetail (growthCols numericCols cl);
               gScore = growthScore rates
           in \<lparr> growth_score = round2 gScore,
                efficiency_score = round2 (efficiencyScore metricsDetail cl),
                pmf_signal = round2 (pmfSignal numericCols metricsDetail cl rates gScore),
                scalability_index = round2 (scalabilityIndex metricsDetail cl),
                capital_efficiency = round2 (capitalEfficiency metricsDetail cl),
                metrics_detail = metricsDetail,
                trends = snd st \<rparr>)"

section \<open>Order, rounding and clamping of numbers\<close>

lemma le_Fin [simp]: "Fin a \<le> Fin b \<longleftrightarrow> a \<le> b"
  by (auto simp: less_eq_jsnum_def)

lemma le_NaN [simp]: "\<not> x \<le> NaN" "\<not> NaN \<le> x"
  by (cases x; simp add: less_eq_jsnum_def)+

lemma le_PInf [simp]: "x \<le> PInf \<longleftrightarrow> x \<noteq> NaN"
  by (cases x; simp add: less_eq_jsnum_def)

lemma NInf_le [simp]: "NInf \<le> x \<longleftrightarrow> x \<noteq> NaN"
  by (cases x; simp add: less_eq_jsnum_def)

lemma PInf_le [simp]: "PInf \<le> x \<longleftrightarrow> x = PInf"
  by (cases x; simp add: less_eq_jsnum_def)

lemma le_NInf [simp]: "x \<le> NInf \<longleftrightarrow> x = NInf"
  by (cases x; simp add: less_eq_jsnum_def)

lemma jsnum_le_trans: "x \<le> y \<Longrightarrow> y \<le> z \<Longrightarrow> x \<le> (z::jsnum)"
  by (cases x; cases y; cases z; simp)

lemma jsnum_le_refl: "x \<noteq> NaN \<Longrightarrow> x \<le> (x::jsnum)"
  by (cases x; simp)

lemma round2_special [simp]: "round2 PInf = PInf" "round2 NInf = NInf" "round2 NaN = NaN"
  by (simp_all add: round2_def)

lemma round2_Fin: "round2 (Fin a) = Fin (real_of_int \<lfloor>a * 100 + 1 / 2\<rfloor> / 100)"
  by (simp add: round2_def)

lemma round2_mono: "x \<le> y \<Longrightarrow> round2 x \<le> round2 y"
proof (cases x; cases y)
  fix a b assume "x \<le> y" "x = Fin a" "y = Fin b"
  then have "a \<le> b" by simp
  then have "\<lfloor>a * 100 + 1 / 2\<rfloor> \<le> \<lfloor>b * 100 + 1 / 2\<rfloor>"
    by (intro floor_mono) simp
  then show ?thesis
    using \<open>x = Fin a\<close> \<open>y = Fin b\<close> by (simp add: round2_Fin divide_right_mono)
qed (simp_all add: round2_Fin)

lemma clamp_cases:
  "clamp (Fin a) = Fin (max 0 (min 100 a))" "clamp PInf = Fin 100" "clamp NInf = Fin 0" "clamp NaN = NaN"
  by (simp_all add: clamp_def Math_max2_def Math_min2_def Let_def max_def min_def)

lemma clamp_range: "clamp v = NaN \<or> (Fin 0 \<le> clamp v \<and> clamp v \<le> Fin 100)"
  by (cases v) (simp_all add: clamp_cases)

lemma round2_range:
  assumes "Fin 0 \<le> x \<and> x \<le> Fin 100"
  shows "Fin 0 \<le> round2 x \<and> round2 x \<le> Fin 100"
  using round2_mono[of "Fin 0" x] round2_mono[of x "Fin 100"] assms
  by (simp add: round2_Fin)

lemma round2_clamp_range:
  "round2 (clamp v) = NaN \<or> (Fin 0 \<le> round2 (clamp v) \<and> round2 (clamp v) \<le> Fin 100)"
  using clamp_range[of v] round2_range[of "clamp v"] by auto

section \<open>Sums, means, minima and maxima\<close>

lemma foldl_plus_Fin: "foldl (\<lambda>a b. a + b) (Fin a) (map Fin rs) = Fin (a + sum_list rs)"
  by (induction rs arbitrary: a) (simp_all add: add.assoc)

lemma sum_arr_Fin: "sum_arr (map Fin rs) = Fin (sum_list rs)"
  by (simp add: sum_arr_def foldl_plus_Fin)

lemma mean_Fin: "rs \<noteq> [] \<Longrightarrow> mean (map Fin rs) = Fin (sum_list rs / real (length rs))"
  by (simp add: mean_def sum_arr_Fin)

lemma foldl_plus_sum_arr: "foldl (\<lambda>s c. s + f c) (Fin 0) cols = sum_arr (map f cols)"
  unfolding sum_arr_def by (simp add: foldl_map)


text \<open>Minimum and maximum of a list without NaN.\<close>

lemma foldl_min2:
  "NaN \<notin> set vals \<Longrightarrow> a \<noteq> NaN \<Longrightarrow>
   foldl Math_min2 a vals \<noteq> NaN \<and> foldl Math_min2 a vals \<le> a
   \<and> (\<forall>v \<in> set vals. foldl Math_min2 a vals \<le> v)"
proof (induction vals arbitrary: a)
  case Nil
  then show ?case by (simp add: jsnum_le_refl)
next
  case (Cons w ws)
  have w: "w \<noteq> NaN" and ws: "NaN \<notin> set ws" using Cons.prems by auto
  have m: "Math_min2 a w \<noteq> NaN" "Math_min2 a w \<le> a" "Math_min2 a w \<le> w"
    using w Cons.prems(2) by (cases a; cases w; simp add: Math_min2_def)+
  from Cons.IH[OF ws m(1)] m show ?case
    by (auto intro: jsnum_le_trans)
qed

lemma foldl_max2:
  "NaN \<notin> set vals \<Longrightarrow> a \<noteq> NaN \<Longrightarrow>
   foldl Math_max2 a vals \<noteq> NaN \<and> a \<le> foldl Math_max2 a vals
   \<and> (\<forall>v \<in> set vals. v \<le> foldl Math_max2 a vals)"
proof (induction vals arbitrary: a)
  case Nil
  then show ?case by (simp add: jsnum_le_refl)
next
  case (Cons w ws)
  have w: "w \<noteq> NaN" and ws: "NaN \<notin> set ws" using Cons.prems by auto
  have m: "Math_max2 a w \<noteq> NaN" "a \<le> Math_max2 a w" "w \<le> Math_max2 a w"
    using w Cons.prems(2) by (cases a; cases w; simp add: Math_max2_def)+
  from Cons.IH[OF ws m(1)] m show ?case
    by (auto intro: jsnum_le_trans)
qed

lemma Math_min_le: "NaN \<notin> set vals \<Longrightarrow> v \<in> set vals \<Longrightarrow> Math_min vals \<le> v"
  using foldl_min2[of vals PInf] by (simp add: Math_min_def)

lemma Math_max_ge: "NaN \<notin> set vals \<Longrightarrow> v \<in> set vals \<Longrightarrow> v \<le> Math_max vals"
  using foldl_max2[of vals NInf] by (simp add: Math_max_def)

section \<open>Substring match and the growth-rate series\<close>

lemma includes_str_sublist: "includes_str c kw \<longleftrightarrow> sublist kw c"
  by (induction c) (auto simp: sublist_Cons_right)


lemma some_includes_iff: "some_includes kws c \<longleftrightarrow> (\<exists>kw \<in> set kws. sublist kw c)"
  by (simp add: some_includes_def list_ex_iff includes_str_sublist)

lemma some_includes_fun: "some_includes kws = (\<lambda>c. \<exists>kw \<in> set kws. sublist kw c)"
  by (rule ext) (simp add: some_includes_iff)





section \<open>What the two maps hold\<close>

lemma colVals_no_NaN: "NaN \<notin> set (colVals data col)"
  by (auto simp: colVals_def isNaN_def Let_def)

lemma colVals_Nil: "colVals [] col = []"
  by (simp add: colVals_def)

lemma colVals_filter:
  "colVals data col = filter (\<lambda>v. v \<noteq> NaN) (map (\<lambda>r. Number (get r col)) data)"
  by (induction data) (simp_all add: colVals_def isNaN_def Let_def)

lemma fold_columnStep_detail:
  "fst (fold (columnStep data) cols st) c =
     (if c \<in> set cols \<and> colVals data c \<noteq> [] then Some (columnDetail (colVals data c)) else fst st c)"
  by (induction cols arbitrary: st) (auto simp: columnStep_def Let_def)


lemma perColumnStats_detail:
  "fst (perColumnStats data cols) c =
     (if c \<in> set cols \<and> colVals data c \<noteq> [] then Some (columnDetail (colVals data c)) else None)"
  by (simp add: perColumnStats_def fold_columnStep_detail)


lemma metrics_detail_lookup:
  "metrics_detail (computeGrowthMetrics data cols) c =
     (if c \<in> set cols \<and> colVals data c \<noteq> [] then Some (columnDetail (colVals data c)) else None)"
  by (cases "data = []") (auto simp: computeGrowthMetrics_def Let_def perColumnStats_detail colVals_Nil)


lemma columnDetail_fields:
  "mean_f (columnDetail vals) = round2 (mean vals)"
  "latest (columnDetail vals) = round2 (last vals)"
  "min_f (columnDetail vals) = round2 (Math_min vals)"
  "max_f (columnDetail vals) = round2 (Math_max vals)"
  "total_f (columnDetail vals) = round2 (sum_arr vals)"
  by (simp_all add: columnDetail_def baseDetail_def Let_def)

lemma growthRates_fields:
  "growthRates md cols =
     map (\<lambda>c. the (avg_growth_rate (the (md c))))
       (filter (\<lambda>c. md c \<noteq> None \<and> avg_growth_rate (the (md c)) \<noteq> None) cols)"
  unfolding growthRates_def
  by (induction cols) (auto simp: avgOf_def split: option.splits)

section \<open>Evaluating the engine on concrete rows\<close>

lemmas parse_simps = StringToNumber_def trim_def isWhiteSpace_def nonDecimalLiteral_def decimalLiteral_def
  unsignedDecimalLiteral_def isDigit_def digitVal_def exponentPart_def signedInteger_def digitsOpt_def scale10_def Let_def

lemmas engine_simps = computeGrowthMetrics_def perColumnStats_def columnStep_def columnDetail_def baseDetail_def
  colVals_def get_def isNaN_def mean_def sum_arr_def std_def round2_def clamp_def Math_max_def Math_min_def Math_max2_def Math_min2_def
  classifyColumns_def some_includes_def revenue_keywords_def cost_keywords_def user_keywords_def retention_keywords_def
  growthCols_def growthRates_def growthScore_def efficiencyScore_def pmfSignal_def scalabilityIndex_def capitalEfficiency_def
  avgOf_def avgOr0_def fieldOr0_def strict_neq_def minus_jsnum_def less_eq_jsnum_def Let_def

section \<open>Which values survive the coercion\<close>

text \<open>
  Claim C1. The statistics of a column are computed over the cells whose coercion is not
  NaN (\<open>colVals_filter\<close>). A \<^verbatim>\<open>null\<close> cell does not coerce to NaN:
  \<^verbatim>\<open>Number(null)\<close> is 0, so for the cells \<open>"12", "abc", null, "15"\<close> the surviving values
  are \<open>[12, 0, 15]\<close> and the 0 enters every statistic of the column.
\<close>

theorem C1_null_cell_counts_as_zero:
  "colVals [[''signups'' \<mapsto> JStr ''12''], [''signups'' \<mapsto> JStr ''abc''], [''signups'' \<mapsto> JNull],
            [''signups'' \<mapsto> JStr ''15'']] ''signups'' = [Fin 12, Fin 0, Fin 15]
   \<and> metrics_detail (computeGrowthMetrics
         [[''signups'' \<mapsto> JStr ''12''], [''signups'' \<mapsto> JStr ''abc''], [''signups'' \<mapsto> JNull],
          [''signups'' \<mapsto> JStr ''15'']] [''signups'']) ''signups'' =
       Some \<lparr> mean_f = Fin 9, latest = Fin 15, min_f = Fin 0, max_f = Fin 15, total_f = Fin 27,
              avg_growth_rate = Some (Fin (- 100)), growth_rates = Some [Fin (- 100)] \<rparr>"
  by (simp add: engine_simps parse_simps)

section \<open>Bounds of the composite scores\<close>

text \<open>
  Claim C2. \<^verbatim>\<open>Number("Infinity")\<close> is not NaN, so the cell survives; the percent change
  from \<open>Infinity\<close> to 10 is \<open>(10 - Infinity) / Infinity * 100\<close>, which is NaN, and NaN goes
  through the average, through \<open>clamp\<close> (\<^verbatim>\<open>Math.min\<close> and \<^verbatim>\<open>Math.max\<close> return NaN)
  and through \<open>round2\<close>: the growth score returned is NaN, which is not in \<open>[0, 100]\<close>.
\<close>

theorem C2_growth_score_NaN:
  "growth_score (computeGrowthMetrics
      [[''revenue'' \<mapsto> JStr ''Infinity''], [''revenue'' \<mapsto> JNum (Fin 10)]] [''revenue'']) = NaN
   \<and> \<not> (Fin 0 \<le> growth_score (computeGrowthMetrics
      [[''revenue'' \<mapsto> JStr ''Infinity''], [''revenue'' \<mapsto> JNum (Fin 10)]] [''revenue'']))
   \<and> \<not> (growth_score (computeGrowthMetrics
      [[''revenue'' \<mapsto> JStr ''Infinity''], [''revenue'' \<mapsto> JNum (Fin 10)]] [''revenue'']) \<le> Fin 100)"
  by (simp add: engine_simps parse_simps)

text \<open>What does hold for every input: a score is in \<open>[0, 100]\<close> or it is NaN.\<close>

lemma scores_in_range_or_NaN:
  fixes data numericCols
  defines "r \<equiv> computeGrowthMetrics data numericCols"
  shows "growth_score r = NaN \<or> (Fin 0 \<le> growth_score r \<and> growth_score r \<le> Fin 100)"
    and "efficiency_score r = NaN \<or> (Fin 0 \<le> efficiency_score r \<and> efficiency_score r \<le> Fin 100)"
    and "pmf_signal r = NaN \<or> (Fin 0 \<le> pmf_signal r \<and> pmf_signal r \<le> Fin 100)"
    and "scalability_index r = NaN \<or> (Fin 0 \<le> scalability_index r \<and> scalability_index r \<le> Fin 100)"
    and "capital_efficiency r = NaN \<or> (Fin 0 \<le> capital_efficiency r \<and> capital_efficiency r \<le> Fin 100)"
  unfolding r_def computeGrowthMetrics_def growthScore_def efficiencyScore_def pmfSignal_def
    scalabilityIndex_def capitalEfficiency_def Let_def
  using round2_clamp_range
  by (simp_all add: round2_Fin)

section \<open>Degenerate input\<close>

text \<open>
  Claim C3. \<open>computeGrowthMetrics\<close> returns the record whose five scores are 0 and whose
  \<open>metrics_detail\<close> and \<open>trends\<close> maps are empty exactly when the row sequence is empty or
  the list of declared numeric columns is empty: that input gives this record, and no other
  input does (with rows and declared columns, either some column has a surviving value and
  \<open>metrics_detail\<close> is not empty, or none has and the growth score is 50). The engine is a
  total function with this one early return and no \<^verbatim>\<open>throw\<close>: the result is a value.
\<close>

theorem C3_degenerate_input:
  "(computeGrowthMetrics data numericCols =
      \<lparr> growth_score = Fin 0, efficiency_score = Fin 0, pmf_signal = Fin 0,
        scalability_index = Fin 0, capital_efficiency = Fin 0,
        metrics_detail = Map.empty, trends = Map.empty \<rparr>)
   = (data = [] \<or> numericCols = [])"
proof
  assume z: "computeGrowthMetrics data numericCols =
      \<lparr> growth_score = Fin 0, efficiency_score = Fin 0, pmf_signal = Fin 0,
        scalability_index = Fin 0, capital_efficiency = Fin 0,
        metrics_detail = Map.empty, trends = Map.empty \<rparr>"
  show "data = [] \<or> numericCols = []"
  proof (rule ccontr)
    assume "\<not> (data = [] \<or> numericCols = [])"
    then have nd: "data \<noteq> []" "numericCols \<noteq> []" by auto
    let ?md = "fst (perColumnStats data numericCols)"
    have md: "?md = Map.empty"
      using z nd by (simp add: computeGrowthMetrics_def Let_def)
    have "growthRates ?md cols = []" for cols
      unfolding md by (simp add: growthRates_fields)
    then have "growth_score (computeGrowthMetrics data numericCols) = round2 (growthScore [])"
      using nd by (simp add: computeGrowthMetrics_def Let_def)
    also have "\<dots> = Fin 50"
      by (simp add: growthScore_def clamp_cases round2_Fin)
    finally show False using z by simp
  qed
next
  assume "data = [] \<or> numericCols = []"
  then show "computeGrowthMetrics data numericCols =
      \<lparr> growth_score = Fin 0, efficiency_score = Fin 0, pmf_signal = Fin 0,
        scalability_index = Fin 0, capital_efficiency = Fin 0,
        metrics_detail = Map.empty, trends = Map.empty \<rparr>"
    by (simp add: computeGrowthMetrics_def)
qed

theorem C3_degenerate_input_witness:
  "computeGrowthMetrics [] [''revenue'', ''cost''] =
     \<lparr> growth_score = Fin 0, efficiency_score = Fin 0, pmf_signal = Fin 0,
       scalability_index = Fin 0, capital_efficiency = Fin 0,
       metrics_detail = Map.empty, trends = Map.empty \<rparr>
   \<and> computeGrowthMetrics [[''revenue'' \<mapsto> JNum (Fin 5)]] [] =
     \<lparr> growth_score = Fin 0, efficiency_score = Fin 0, pmf_signal = Fin 0,
       scalability_index = Fin 0, capital_efficiency = Fin 0,
       metrics_detail = Map.empty, trends = Map.empty \<rparr>
   \<and> computeGrowthMetrics [[''revenue'' \<mapsto> JNum (Fin 5)]] [''revenue''] \<noteq>
     \<lparr> growth_score = Fin 0, efficiency_score = Fin 0, pmf_signal = Fin 0,
       scalability_index = Fin 0, capital_efficiency = Fin 0,
       metrics_detail = Map.empty, trends = Map.empty \<rparr>"
  using C3_degenerate_input [of "[]" "[''revenue'', ''cost'']"]
        C3_degenerate_input [of "[[''revenue'' \<mapsto> JNum (Fin 5)]]" "[]"]
        C3_degenerate_input [of "[[''revenue'' \<mapsto> JNum (Fin 5)]]" "[''revenue'']"]
  by simp

section \<open>The growth-rate series of a column\<close>



section \<open>The average growth rate\<close>




section \<open>Columns with a single surviving value\<close>



section \<open>Efficiency score\<close>

text \<open>
  The returned score is rounded to 2 decimals: with revenue total 100 and cost total 300
  it is \<open>8.33\<close>, not \<open>clamp (100 / 300 * 25) = 25 / 3\<close>. With no rows the degenerate result
  is returned, whose efficiency score is 0 although the cost bucket is empty.
\<close>

theorem C7_unrounded_or_default_counterexample:
  "efficiency_score (computeGrowthMetrics
      [[''revenue'' \<mapsto> JNum (Fin 100), ''cost'' \<mapsto> JNum (Fin 300)]] [''revenue'', ''cost''])
     = Fin (833 / 100)
   \<and> clamp ((Fin 100 / Fin 300) * Fin 25) = Fin (25 / 3)
   \<and> cost (classifyColumns [''revenue'']) = []
   \<and> efficiency_score (computeGrowthMetrics [] [''revenue'']) = Fin 0"
  by (simp add: engine_simps)

text \<open>
  Claim C7, amended. For a non-empty row sequence and a non-empty declared column list:
  \<open>efficiency_score\<close> is 65 when the revenue bucket or the cost bucket is empty; otherwise,
  with \<open>sumRevenue\<close> and \<open>sumCost\<close> the sums of the \<open>total\<close> that \<open>metrics_detail\<close> holds for
  the bucket's columns (0 for a column it does not hold), it is
  \<open>clamp ((sumRevenue / sumCost) * 25)\<close> rounded to 2 decimals when \<open>sumCost > 0\<close>, and 65
  when not. The columns \<open>revenue = [100, 200]\<close>, \<open>cost = [50, 50]\<close> give 75.
\<close>

theorem C7_efficiency_score:
  assumes "data \<noteq> []" and "numericCols \<noteq> []"
  shows "let r = computeGrowthMetrics data numericCols;
             cl = classifyColumns numericCols;
             colTotal = (\<lambda>c. case metrics_detail r c of None \<Rightarrow> Fin 0 | Some d \<Rightarrow> total_f d);
             sumRevenue = sum_arr (map colTotal (revenue cl));
             sumCost = sum_arr (map colTotal (cost cl))
         in (revenue cl = [] \<or> cost cl = [] \<longrightarrow> efficiency_score r = Fin 65)
          \<and> (revenue cl \<noteq> [] \<and> cost cl \<noteq> [] \<and> Fin 0 < sumCost \<longrightarrow>
               efficiency_score r = round2 (clamp ((sumRevenue / sumCost) * Fin 25)))
          \<and> (revenue cl \<noteq> [] \<and> cost cl \<noteq> [] \<and> \<not> Fin 0 < sumCost \<longrightarrow>
               efficiency_score r = Fin 65)"
  using assms
  by (simp add: computeGrowthMetrics_def efficiencyScore_def Let_def fieldOr0_def
      foldl_plus_sum_arr round2_Fin)

theorem C7_efficiency_score_witness:
  "efficiency_score (computeGrowthMetrics
      [[''revenue'' \<mapsto> JNum (Fin 100), ''cost'' \<mapsto> JNum (Fin 50)],
       [''revenue'' \<mapsto> JNum (Fin 200), ''cost'' \<mapsto> JNum (Fin 50)]]
      [''revenue'', ''cost'']) = Fin 75
   \<and> efficiency_score (computeGrowthMetrics
      [[''revenue'' \<mapsto> JNum (Fin 100), ''headcount'' \<mapsto> JNum (Fin 50)]]
      [''revenue'', ''headcount'']) = Fin 65"
proof -
  have cl: "classifyColumns [''revenue'', ''cost''] =
      \<lparr> revenue = [''revenue''], cost = [''cost''], user = [], retention = [] \<rparr>"
    "classifyColumns [''revenue'', ''headcount''] =
      \<lparr> revenue = [''revenue''], cost = [], user = [], retention = [] \<rparr>"
    by (simp_all add: classifyColumns_def some_includes_def revenue_keywords_def
        cost_keywords_def user_keywords_def retention_keywords_def)
  have v: "colVals [[''revenue'' \<mapsto> JNum (Fin 100), ''cost'' \<mapsto> JNum (Fin 50)],
       [''revenue'' \<mapsto> JNum (Fin 200), ''cost'' \<mapsto> JNum (Fin 50)]] ''revenue'' = [Fin 100, Fin 200]"
    "colVals [[''revenue'' \<mapsto> JNum (Fin 100), ''cost'' \<mapsto> JNum (Fin 50)],
       [''revenue'' \<mapsto> JNum (Fin 200), ''cost'' \<mapsto> JNum (Fin 50)]] ''cost'' = [Fin 50, Fin 50]"
    by (simp_all add: colVals_def get_def isNaN_def)
  show ?thesis
    using C7_efficiency_score[of "[[''revenue'' \<mapsto> JNum (Fin 100), ''cost'' \<mapsto> JNum (Fin 50)],
       [''revenue'' \<mapsto> JNum (Fin 200), ''cost'' \<mapsto> JNum (Fin 50)]]" "[''revenue'', ''cost'']"]
      C7_efficiency_score[of "[[''revenue'' \<mapsto> JNum (Fin 100), ''headcount'' \<mapsto> JNum (Fin 50)]]"
        "[''revenue'', ''headcount'']"]
    by (simp add: Let_def cl metrics_detail_lookup v columnDetail_def baseDetail_def sum_arr_def
        round2_def clamp_def Math_max2_def Math_min2_def)
qed

section \<open>PMF signal\<close>




section \<open>The classifier\<close>

text \<open>
  Claim C9. Each of the four buckets is the declared column list filtered by "contains one
  of the bucket's keywords as a substring", so it keeps the declaration order (it is a
  subsequence of the declared list); the four filters are independent, so a column is in
  as many buckets as it matches. A declared column \<open>customer_churn_rate\<close> is in the user
  bucket and in the retention bucket.
\<close>

theorem C9_classifier:
  "revenue (classifyColumns cols) =
     filter (\<lambda>c. \<exists>kw \<in> {''revenue'', ''mrr'', ''arr'', ''income'', ''sales'', ''gmv''}. sublist kw c) cols
   \<and> cost (classifyColumns cols) =
     filter (\<lambda>c. \<exists>kw \<in> {''cost'', ''expense'', ''spend'', ''burn'', ''cac''}. sublist kw c) cols
   \<and> user (classifyColumns cols) =
     filter (\<lambda>c. \<exists>kw \<in> {''user'', ''customer'', ''subscriber'', ''client'', ''account''}. sublist kw c) cols
   \<and> retention (classifyColumns cols) =
     filter (\<lambda>c. \<exists>kw \<in> {''retention'', ''churn'', ''nrr'', ''ndr''}. sublist kw c) cols
   \<and> subseq (revenue (classifyColumns cols)) cols \<and> subseq (cost (classifyColumns cols)) cols
   \<and> subseq (user (classifyColumns cols)) cols \<and> subseq (retention (classifyColumns cols)) cols
   \<and> (''customer_churn_rate'' \<in> set cols \<longrightarrow>
        ''customer_churn_rate'' \<in> set (user (classifyColumns cols))
        \<and> ''customer_churn_rate'' \<in> set (retention (classifyColumns cols)))"
proof -
  have u: "some_includes user_keywords ''customer_churn_rate''"
    by (simp add: some_includes_def user_keywords_def)
  have r: "some_includes retention_keywords ''customer_churn_rate''"
    by (simp add: some_includes_def retention_keywords_def)
  have f: "revenue (classifyColumns cols) =
     filter (\<lambda>c. \<exists>kw \<in> {''revenue'', ''mrr'', ''arr'', ''income'', ''sales'', ''gmv''}. sublist kw c) cols"
     "cost (classifyColumns cols) =
     filter (\<lambda>c. \<exists>kw \<in> {''cost'', ''expense'', ''spend'', ''burn'', ''cac''}. sublist kw c) cols"
     "user (classifyColumns cols) =
     filter (\<lambda>c. \<exists>kw \<in> {''user'', ''customer'', ''subscriber'', ''client'', ''account''}. sublist kw c) cols"
     "retention (classifyColumns cols) =
     filter (\<lambda>c. \<exists>kw \<in> {''retention'', ''churn'', ''nrr'', ''ndr''}. sublist kw c) cols"
    by (simp_all add: classifyColumns_def some_includes_fun revenue_keywords_def
        cost_keywords_def user_keywords_def retention_keywords_def)
  show ?thesis
    unfolding f[symmetric] using u r by (simp add: classifyColumns_def)
qed

theorem C9_classifier_witness:
  "classifyColumns [''mrr'', ''customer_churn_rate'', ''burn_rate'', ''page_views''] =
     \<lparr> revenue = [''mrr''], cost = [''burn_rate''], user = [''customer_churn_rate''],
       retention = [''customer_churn_rate''] \<rparr>
   \<and> ''customer_churn_rate'' \<in> set (user (classifyColumns [''mrr'', ''customer_churn_rate'', ''burn_rate'', ''page_views'']))
   \<and> ''customer_churn_rate'' \<in> set (retention (classifyColumns [''mrr'', ''customer_churn_rate'', ''burn_rate'', ''page_views'']))"
proof -
  have e: "classifyColumns [''mrr'', ''customer_churn_rate'', ''burn_rate'', ''page_views''] =
     \<lparr> revenue = [''mrr''], cost = [''burn_rate''], user = [''customer_churn_rate''],
       retention = [''customer_churn_rate''] \<rparr>"
    by (simp add: classifyColumns_def some_includes_def revenue_keywords_def
        cost_keywords_def user_keywords_def retention_keywords_def)
  show ?thesis
    using C9_classifier[of "[''mrr'', ''customer_churn_rate'', ''burn_rate'', ''page_views'']"] e
    by simp
qed

section \<open>Order of the rounded statistics\<close>

text \<open>
  A column that holds both \<open>Infinity\<close> and \<open>-Infinity\<close> (the strings coerce to them) has the
  sum \<open>Infinity + -Infinity\<close>, so its mean is NaN, and no comparison with NaN holds.
\<close>

theorem C10_mean_NaN_counterexample:
  "mean_f (the (metrics_detail (computeGrowthMetrics
      [[''burn'' \<mapsto> JStr ''Infinity''], [''burn'' \<mapsto> JStr ''-Infinity'']] [''burn'']) ''burn'')) = NaN
   \<and> min_f (the (metrics_detail (computeGrowthMetrics
      [[''burn'' \<mapsto> JStr ''Infinity''], [''burn'' \<mapsto> JStr ''-Infinity'']] [''burn'']) ''burn'')) = NInf
   \<and> max_f (the (metrics_detail (computeGrowthMetrics
      [[''burn'' \<mapsto> JStr ''Infinity''], [''burn'' \<mapsto> JStr ''-Infinity'']] [''burn'']) ''burn'')) = PInf
   \<and> \<not> (min_f (the (metrics_detail (computeGrowthMetrics
      [[''burn'' \<mapsto> JStr ''Infinity''], [''burn'' \<mapsto> JStr ''-Infinity'']] [''burn'']) ''burn''))
        \<le> mean_f (the (metrics_detail (computeGrowthMetrics
      [[''burn'' \<mapsto> JStr ''Infinity''], [''burn'' \<mapsto> JStr ''-Infinity'']] [''burn'']) ''burn'')))
   \<and> \<not> (mean_f (the (metrics_detail (computeGrowthMetrics
      [[''burn'' \<mapsto> JStr ''Infinity''], [''burn'' \<mapsto> JStr ''-Infinity'']] [''burn'']) ''burn''))
        \<le> max_f (the (metrics_detail (computeGrowthMetrics
      [[''burn'' \<mapsto> JStr ''Infinity''], [''burn'' \<mapsto> JStr ''-Infinity'']] [''burn'']) ''burn'')))"
proof -
  have v: "colVals [[''burn'' \<mapsto> JStr ''Infinity''], [''burn'' \<mapsto> JStr ''-Infinity'']] ''burn'' = [PInf, NInf]"
    by (simp add: colVals_def get_def isNaN_def parse_simps)
  show ?thesis
    unfolding metrics_detail_lookup v
    by (simp add: columnDetail_fields mean_def sum_arr_def Math_min_def Math_max_def
        Math_min2_def Math_max2_def)
qed

text \<open>
  Claim C10, amended. For every column in \<open>metrics_detail\<close> the rounded statistics
  satisfy \<open>min \<le> latest \<le> max\<close> and \<open>min \<le> max\<close>: the latest value is one of the surviving
  values, minimum and maximum bound every one of them, and \<open>round2\<close> keeps the order. Nothing
  is stated of the mean: it is NaN in the column above, and the sum it is computed from is
  rounded in binary64, which this model's exact sum does not follow.
\<close>

theorem C10_ordering:
  assumes "metrics_detail (computeGrowthMetrics data numericCols) col = Some d"
  shows "min_f d \<le> latest d \<and> latest d \<le> max_f d \<and> min_f d \<le> max_f d"
proof -
  define vals where "vals = colVals data col"
  have ne: "vals \<noteq> []" and d: "d = columnDetail vals"
    using assms(1) unfolding vals_def metrics_detail_lookup by (auto split: if_splits)
  have nan: "NaN \<notin> set vals"
    unfolding vals_def by (rule colVals_no_NaN)
  have l: "last vals \<in> set vals"
    using ne by simp
  have 3: "Math_min vals \<le> last vals" using Math_min_le[OF nan l] .
  have 4: "last vals \<le> Math_max vals" using Math_max_ge[OF nan l] .
  have 5: "Math_min vals \<le> Math_max vals" using 3 4 by (rule jsnum_le_trans)
  show ?thesis
    unfolding d columnDetail_fields
    using 3 4 5 by (simp add: round2_mono)
qed

theorem C10_ordering_witness:
  "metrics_detail (computeGrowthMetrics
      [[''arpu'' \<mapsto> JStr ''12.25''], [''arpu'' \<mapsto> JNum (Fin 7)], [''arpu'' \<mapsto> JStr ''9.5'']] [''arpu'']) ''arpu''
     = Some \<lparr> mean_f = Fin (958 / 100), latest = Fin (95 / 10), min_f = Fin 7, max_f = Fin (1225 / 100),
              total_f = Fin (2875 / 100), avg_growth_rate = Some (Fin (- 357 / 100)),
              growth_rates = Some [Fin (- 4286 / 100), Fin (3571 / 100)] \<rparr>
   \<and> Fin 7 \<le> Fin (95 / 10) \<and> Fin (95 / 10) \<le> Fin (1225 / 100) \<and> Fin 7 \<le> Fin (1225 / 100)"
proof -
  have v: "colVals [[''arpu'' \<mapsto> JStr ''12.25''], [''arpu'' \<mapsto> JNum (Fin 7)], [''arpu'' \<mapsto> JStr ''9.5'']] ''arpu''
      = [Fin (1225 / 100), Fin 7, Fin (95 / 10)]"
    by (simp add: colVals_def get_def isNaN_def parse_simps)
  have m: "metrics_detail (computeGrowthMetrics
      [[''arpu'' \<mapsto> JStr ''12.25''], [''arpu'' \<mapsto> JNum (Fin 7)], [''arpu'' \<mapsto> JStr ''9.5'']] [''arpu'']) ''arpu''
     = Some \<lparr> mean_f = Fin (958 / 100), latest = Fin (95 / 10), min_f = Fin 7, max_f = Fin (1225 / 100),
              total_f = Fin (2875 / 100), avg_growth_rate = Some (Fin (- 357 / 100)),
              growth_rates = Some [Fin (- 4286 / 100), Fin (3571 / 100)] \<rparr>"
    unfolding metrics_detail_lookup v
    by (simp add: columnDetail_def baseDetail_def mean_def sum_arr_def round2_def Math_min_def Math_max_def
        Math_min2_def Math_max2_def strict_neq_def minus_jsnum_def)
  show ?thesis
    using C10_ordering[OF m] m by simp
qed

end
